theory Spec2Isabelle
  imports Complex_Main
begin

section \<open>Data model of \<open>lib/core.ts\<close>\<close>

text \<open>
  Numbers of the source are IEEE doubles; they are modelled as exact rationals
  (\<^typ>\<open>rat\<close>), so \<open>NaN\<close> and the infinities have no counterpart and
  every product and sum is exact.  An optional field \<open>price?: number\<close> is a
  \<^typ>\<open>rat option\<close>, \<open>brand?: string\<close> a \<^typ>\<open>string option\<close>.
  Strings are lists of code units below 256 (the Latin-1 part of UTF-16).
\<close>

datatype Category = Tops | Bottoms | Dresses | Outerwear | Shoes | Accessories

fun categoryName :: "Category \<Rightarrow> string" where
  "categoryName Tops = ''tops''"
| "categoryName Bottoms = ''bottoms''"
| "categoryName Dresses = ''dresses''"
| "categoryName Outerwear = ''outerwear''"
| "categoryName Shoes = ''shoes''"
| "categoryName Accessories = ''accessories''"

record FashionItem =
  item_id :: string
  title :: string
  description :: string
  imageUrl :: string
  category :: Category
  colors :: "string list"
  style :: "string list"
  price :: "rat option"
  brand :: "string option"
  tags :: "string list"

record PinterestBoard =
  board_id :: string
  board_name :: string
  pins :: "FashionItem list"

record PriceRange =
  range_min :: rat
  range_max :: rat

record StyleProfile =
  dominantColors :: "string list"
  preferredCategories :: "string list"
  styleKeywords :: "string list"
  priceRange :: "PriceRange option"
  favoredBrands :: "string list"

record Recommendation =
  item :: FashionItem
  score :: rat
  reasons :: "string list"

text \<open>The two private fields of \<open>FashionRecommendationEngine\<close>; \<open>null\<close> is \<open>None\<close>.\<close>

record Engine =
  styleProfile :: "StyleProfile option"
  boardData :: "PinterestBoard option"

datatype error = StyleProfileNotInitialized

section \<open>JavaScript primitives the code relies on\<close>

text \<open>Truthiness of an optional number (\<open>undefined\<close> and \<open>0\<close> are falsy) and of an
  optional string (\<open>undefined\<close> and the empty string are falsy).\<close>

definition truthy_number :: "rat option \<Rightarrow> bool" where
  "truthy_number p = (case p of None \<Rightarrow> False | Some v \<Rightarrow> v \<noteq> 0)"

definition truthy_string :: "string option \<Rightarrow> bool" where
  "truthy_string s = (case s of None \<Rightarrow> False | Some v \<Rightarrow> v \<noteq> [])"

text \<open>\<open>Array.prototype.includes\<close> on strings.\<close>

definition array_includes :: "string list \<Rightarrow> string \<Rightarrow> bool" where
  "array_includes xs x = (x \<in> set xs)"

text \<open>\<open>Array.prototype.sort\<close> with a comparator: a stable insertion sort.  An element is
  placed in front of the first element it does not compare greater than.\<close>

fun place :: "('a \<Rightarrow> 'a \<Rightarrow> rat) \<Rightarrow> 'a \<Rightarrow> 'a list \<Rightarrow> 'a list" where
  "place cmp x [] = [x]"
| "place cmp x (y # ys) = (if cmp x y \<le> 0 then x # y # ys else y # place cmp x ys)"

definition array_sort :: "('a \<Rightarrow> 'a \<Rightarrow> rat) \<Rightarrow> 'a list \<Rightarrow> 'a list" where
  "array_sort cmp xs = foldr (place cmp) xs []"

text \<open>\<open>xs.slice(0, e)\<close> for an integral \<open>e\<close>: a negative end counts from the back.\<close>

definition slice0 :: "int \<Rightarrow> 'a list \<Rightarrow> 'a list" where
  "slice0 e xs = (if e < 0 then take (nat (int (length xs) + e)) xs else take (nat e) xs)"

text \<open>\<open>Array.prototype.join\<close>.\<close>

fun join :: "string \<Rightarrow> string list \<Rightarrow> string" where
  "join sep [] = []"
| "join sep [x] = x"
| "join sep (x # y # ys) = x @ sep @ join sep (y # ys)"

text \<open>An insertion-ordered \<open>Map\<close> (or plain object) with string keys: an association list
  with distinct keys; \<open>set\<close> on a present key keeps its position.\<close>

fun map_set :: "string \<Rightarrow> 'v \<Rightarrow> (string \<times> 'v) list \<Rightarrow> (string \<times> 'v) list" where
  "map_set k v [] = [(k, v)]"
| "map_set k v ((k', v') # m) = (if k = k' then (k, v) # m else (k', v') # map_set k v m)"

text \<open>\<open>Math.min(...xs)\<close> and \<open>Math.max(...xs)\<close> of a non-empty argument list \<open>x, xs\<close>.\<close>

definition math_min :: "rat \<Rightarrow> rat list \<Rightarrow> rat" where
  "math_min x xs = fold min xs x"

definition math_max :: "rat \<Rightarrow> rat list \<Rightarrow> rat" where
  "math_max x xs = fold max xs x"

section \<open>\<open>normalizeText\<close> of \<open>lib/utils.ts\<close>\<close>

definition code_unit :: "char \<Rightarrow> nat" where
  "code_unit c = of_char c"

text \<open>\<open>\s\<close> and the characters \<open>trim\<close> removes, below 256: tab, line feed, vertical tab,
  form feed, carriage return, space and no-break space.\<close>

definition is_space :: "char \<Rightarrow> bool" where
  "is_space c = (code_unit c \<in> {9, 10, 11, 12, 13, 32, 160})"

definition lower_char :: "char \<Rightarrow> char" where
  "lower_char c =
     (let n = code_unit c
      in if (65 \<le> n \<and> n \<le> 90) \<or> (192 \<le> n \<and> n \<le> 222 \<and> n \<noteq> 215)
         then char_of (n + 32) else c)"

definition toLowerCase :: "string \<Rightarrow> string" where
  "toLowerCase s = map lower_char s"

definition trim :: "string \<Rightarrow> string" where
  "trim s = rev (dropWhile is_space (rev (dropWhile is_space s)))"

text \<open>The class \<open>[a-z0-9\s-]\<close>.\<close>

definition kept :: "char \<Rightarrow> bool" where
  "kept c =
     (let n = code_unit c
      in (97 \<le> n \<and> n \<le> 122) \<or> (48 \<le> n \<and> n \<le> 57) \<or> is_space c \<or> n = 45)"

text \<open>\<open>replace(/[^a-z0-9\s-]/g, '')\<close>.\<close>

definition strip_special :: "string \<Rightarrow> string" where
  "strip_special s = filter kept s"

text \<open>\<open>replace(/\s+/g, ' ')\<close>: every maximal run of white space becomes one space.\<close>

function collapse_spaces :: "string \<Rightarrow> string" where
  "collapse_spaces [] = []"
| "collapse_spaces (c # cs) =
     (if is_space c then CHR '' '' # collapse_spaces (dropWhile is_space cs)
      else c # collapse_spaces cs)"
  by pat_completeness auto
termination
  by (relation "measure length") (auto simp: le_imp_less_Suc length_dropWhile_le)

definition normalizeText :: "string \<Rightarrow> string" where
  "normalizeText text = collapse_spaces (strip_special (trim (toLowerCase text)))"

text \<open>\<open>groupByCategory\<close>: an object from category name to the items of that category.\<close>

definition groupByCategory :: "FashionItem list \<Rightarrow> (string \<times> FashionItem list) list" where
  "groupByCategory items =
     fold (\<lambda>it grouped.
             (case map_of grouped (categoryName (category it)) of
                None \<Rightarrow> map_set (categoryName (category it)) [it] grouped
              | Some its \<Rightarrow> map_set (categoryName (category it)) (its @ [it]) grouped))
          items []"

section \<open>The recommendation engine\<close>

definition getFrequencyMap :: "string list \<Rightarrow> (string \<times> nat) list" where
  "getFrequencyMap items =
     fold (\<lambda>it freq.
             (let normalized = normalizeText it
              in map_set normalized
                   ((case map_of freq normalized of None \<Rightarrow> 0 | Some c \<Rightarrow> c) + 1) freq))
          items []"

definition getTopN :: "(string \<times> nat) list \<Rightarrow> nat \<Rightarrow> string list" where
  "getTopN freqMap n =
     map fst (take n (array_sort (\<lambda>a b. of_nat (snd b) - of_nat (snd a)) freqMap))"

definition pin_brands :: "FashionItem list \<Rightarrow> string list" where
  "pin_brands ps =
     concat (map (\<lambda>pin. if truthy_string (brand pin) then [the (brand pin)] else []) ps)"

definition pin_prices :: "FashionItem list \<Rightarrow> rat list" where
  "pin_prices ps =
     concat (map (\<lambda>pin. if truthy_number (price pin) then [the (price pin)] else []) ps)"

definition buildStyleProfile :: "PinterestBoard \<Rightarrow> StyleProfile" where
  "buildStyleProfile board =
     (let allColors = concat (map colors (pins board));
          allStyles = concat (map style (pins board));
          categories = map (\<lambda>pin. categoryName (category pin)) (pins board);
          brands = pin_brands (pins board);
          prices = pin_prices (pins board);
          colorFreq = getFrequencyMap allColors;
          styleFreq = getFrequencyMap allStyles;
          categoryFreq = getFrequencyMap categories;
          brandFreq = getFrequencyMap brands
      in \<lparr> dominantColors = getTopN colorFreq 5,
           preferredCategories = getTopN categoryFreq 3,
           styleKeywords = getTopN styleFreq 8,
           priceRange =
             (case prices of
                [] \<Rightarrow> None
              | p # ps \<Rightarrow> Some \<lparr> range_min = math_min p ps, range_max = math_max p ps \<rparr>),
           favoredBrands = getTopN brandFreq 5 \<rparr>)"

definition calculateColorMatch :: "string list \<Rightarrow> string list \<Rightarrow> rat" where
  "calculateColorMatch itemColors profileColors =
     (if length itemColors = 0 \<or> length profileColors = 0 then 0.5
      else of_nat (length (filter (\<lambda>c. array_includes profileColors c) itemColors))
             / of_nat (max (length itemColors) 1))"

definition calculateStyleMatch :: "string list \<Rightarrow> string list \<Rightarrow> rat" where
  "calculateStyleMatch itemStyles profileStyles =
     (if length itemStyles = 0 \<or> length profileStyles = 0 then 0.5
      else of_nat (length (filter (\<lambda>s. array_includes profileStyles s) itemStyles))
             / of_nat (max (length itemStyles) 1))"

definition calculateRecommendationScore :: "FashionItem \<Rightarrow> StyleProfile \<Rightarrow> rat" where
  "calculateRecommendationScore it profile =
     (let s0 = 0;
          colorMatch = calculateColorMatch (colors it) (dominantColors profile);
          s1 = s0 + colorMatch * 0.3;
          styleMatch = calculateStyleMatch (style it) (styleKeywords profile);
          s2 = s1 + styleMatch * 0.4;
          categoryMatch =
            (if array_includes (preferredCategories profile) (categoryName (category it))
             then 1 else 0.5);
          s3 = s2 + categoryMatch * 0.15;
          brandMatch =
            (if truthy_string (brand it) \<and> array_includes (favoredBrands profile) (the (brand it))
             then 1 else 0.5);
          s4 = s3 + brandMatch * 0.1
      in (case (if truthy_number (price it) then priceRange profile else None) of
            Some r \<Rightarrow>
              s4 + (if the (price it) \<ge> range_min r \<and> the (price it) \<le> range_max r
                    then 1 else 0.5) * 0.05
          | None \<Rightarrow> s4 + 0.025))"

definition generateReasons :: "FashionItem \<Rightarrow> StyleProfile \<Rightarrow> string list" where
  "generateReasons it profile =
     (let matchingColors = filter (\<lambda>c. array_includes (dominantColors profile) c) (colors it);
          r1 = (if length matchingColors > 0
                then [''Matches your preferred colors: '' @ join '', '' matchingColors]
                else []);
          matchingStyles = filter (\<lambda>s. array_includes (styleKeywords profile) s) (style it);
          r2 = (if length matchingStyles > 0
                then [''Fits your '' @ join '', '' matchingStyles @ '' style'']
                else []);
          r3 = (if array_includes (preferredCategories profile) (categoryName (category it))
                then [''You often save '' @ categoryName (category it)] else []);
          r4 = (if truthy_string (brand it) \<and> array_includes (favoredBrands profile) (the (brand it))
                then [''From your favorite brand: '' @ the (brand it)] else []);
          r5 = (case (if truthy_number (price it) then priceRange profile else None) of
                  Some r \<Rightarrow>
                    (if the (price it) \<ge> range_min r \<and> the (price it) \<le> range_max r
                     then [''Within your typical price range''] else [])
                | None \<Rightarrow> [])
      in r1 @ r2 @ r3 @ r4 @ r5)"

text \<open>The state of a fresh engine, and the three public methods.  A method that assigns
  to a field returns the new state beside its result.\<close>

definition createRecommendationEngine :: Engine where
  "createRecommendationEngine = \<lparr> styleProfile = None, boardData = None \<rparr>"

definition analyzePinterestBoard :: "Engine \<Rightarrow> PinterestBoard \<Rightarrow> StyleProfile \<times> Engine" where
  "analyzePinterestBoard eng board =
     (let profile = buildStyleProfile board
      in (profile, eng\<lparr> boardData := Some board, styleProfile := Some profile \<rparr>))"

text \<open>The parameter \<open>limit\<close> defaults to 10 when the caller leaves it out (\<open>None\<close>).\<close>

definition generateRecommendations ::
  "Engine \<Rightarrow> FashionItem list \<Rightarrow> int option \<Rightarrow> error + Recommendation list" where
  "generateRecommendations eng catalogItems limit =
     (case styleProfile eng of
        None \<Rightarrow> Inl StyleProfileNotInitialized
      | Some profile \<Rightarrow>
          (let scoredItems =
                 map (\<lambda>it. \<lparr> item = it,
                             score = calculateRecommendationScore it profile,
                             reasons = generateReasons it profile \<rparr>) catalogItems
           in Inr (slice0 (case limit of None \<Rightarrow> 10 | Some l \<Rightarrow> l)
                     (array_sort (\<lambda>a b. score b - score a) scoredItems))))"

definition getStyleProfile :: "Engine \<Rightarrow> StyleProfile option" where
  "getStyleProfile eng = styleProfile eng"

definition allCategories :: "string list" where
  "allCategories = [''tops'', ''bottoms'', ''dresses'', ''outerwear'', ''shoes'', ''accessories'']"

definition findWardrobeGaps :: "Engine \<Rightarrow> string list" where
  "findWardrobeGaps eng =
     (case boardData eng of
        None \<Rightarrow> []
      | Some board \<Rightarrow>
          (let grouped = groupByCategory (pins board);
               categoryCount =
                 fold (\<lambda>cat m. map_set cat
                         (case map_of grouped cat of None \<Rightarrow> 0 | Some its \<Rightarrow> length its) m)
                      allCategories [];
               avgCount = (fold (\<lambda>b a. a + b) (map (\<lambda>kv. of_nat (snd kv)) categoryCount) (0::rat))
                            / of_nat (length allCategories)
           in filter (\<lambda>cat. of_nat (case map_of categoryCount cat of None \<Rightarrow> 0 | Some n \<Rightarrow> n)
                               < avgCount * 0.5)
                     allCategories))"

definition getRecommendations ::
  "PinterestBoard \<Rightarrow> FashionItem list \<Rightarrow> int option \<Rightarrow> error + Recommendation list" where
  "getRecommendations board catalogItems limit =
     generateRecommendations (snd (analyzePinterestBoard createRecommendationEngine board))
       catalogItems limit"

section \<open>The specification's wording, for comparison with the code\<close>

text \<open>The scoring rule as the specification words it: a tag match is the share of the
  item's tags found in the profile's list, the brand matches when it is in the favored
  brands, and the price term is neutral when the item has no price or the profile no range.\<close>

definition spec_tagMatch :: "string list \<Rightarrow> string list \<Rightarrow> rat" where
  "spec_tagMatch itemTags topN =
     (if itemTags = [] \<or> topN = [] then 1 / 2
      else of_nat (length (filter (\<lambda>t. t \<in> set topN) itemTags))
             / of_nat (max (length itemTags) 1))"

definition spec_priceTerm :: "rat option \<Rightarrow> PriceRange option \<Rightarrow> rat" where
  "spec_priceTerm p r =
     (case p of
        None \<Rightarrow> 0.025
      | Some v \<Rightarrow>
          (case r of
             None \<Rightarrow> 0.025
           | Some rg \<Rightarrow> 0.05 * (if range_min rg \<le> v \<and> v \<le> range_max rg then 1 else 0.5)))"

definition spec_score :: "FashionItem \<Rightarrow> StyleProfile \<Rightarrow> rat" where
  "spec_score it profile =
     0.30 * spec_tagMatch (colors it) (dominantColors profile)
     + 0.40 * spec_tagMatch (style it) (styleKeywords profile)
     + 0.15 * (if categoryName (category it) \<in> set (preferredCategories profile) then 1 else 0.5)
     + 0.10 * (if brand it \<in> Some ` set (favoredBrands profile) then 1 else 0.5)
     + spec_priceTerm (price it) (priceRange profile)"

text \<open>The number of pins of a category, the six categories, and the mean count.\<close>

definition pinCount :: "PinterestBoard \<Rightarrow> Category \<Rightarrow> nat" where
  "pinCount board c = length (filter (\<lambda>pin. category pin = c) (pins board))"

definition sixCategories :: "Category list" where
  "sixCategories = [Tops, Bottoms, Dresses, Outerwear, Shoes, Accessories]"

definition meanCount :: "PinterestBoard \<Rightarrow> rat" where
  "meanCount board = (\<Sum>c\<leftarrow>sixCategories. of_nat (pinCount board c)) / 6"

text \<open>A character that survives normalisation: \<open>a\<close> to \<open>z\<close>, a digit, the hyphen or
  the space.\<close>

definition plain_char :: "char \<Rightarrow> bool" where
  "plain_char c =
     (let n = code_unit c
      in (97 \<le> n \<and> n \<le> 122) \<or> (48 \<le> n \<and> n \<le> 57) \<or> n = 45 \<or> n = 32)"

definition profile_strings :: "StyleProfile \<Rightarrow> string set" where
  "profile_strings p =
     set (dominantColors p) \<union> set (styleKeywords p)
       \<union> set (preferredCategories p) \<union> set (favoredBrands p)"

section \<open>Concrete items, profiles and boards\<close>

definition item_of ::
  "Category \<Rightarrow> string list \<Rightarrow> string list \<Rightarrow> rat option \<Rightarrow> string option \<Rightarrow> FashionItem" where
  "item_of c cs ss p b =
     \<lparr> item_id = [], title = [], description = [], imageUrl = [], category = c,
       colors = cs, style = ss, price = p, brand = b, tags = [] \<rparr>"

definition board_of :: "FashionItem list \<Rightarrow> PinterestBoard" where
  "board_of ps = \<lparr> board_id = [], board_name = [], pins = ps \<rparr>"

text \<open>An item that costs nothing, and a profile whose price range starts at 0.\<close>

definition free_item :: FashionItem where
  "free_item = item_of Tops [] [] (Some 0) None"

definition zero_range_profile :: StyleProfile where
  "zero_range_profile =
     \<lparr> dominantColors = [], preferredCategories = [], styleKeywords = [],
       priceRange = Some \<lparr> range_min = 0, range_max = 100 \<rparr>, favoredBrands = [] \<rparr>"

definition free_board :: PinterestBoard where
  "free_board = board_of [free_item]"

text \<open>A board with a pin priced below 0 (a credit) and a pin priced 10: the price range
  built from it is \<open>[-5, 10]\<close>, which contains 0.\<close>

definition credit_board :: PinterestBoard where
  "credit_board =
     board_of [item_of Tops [] [] (Some (- 5)) None, item_of Tops [] [] (Some 10) None]"

definition sample_profile :: StyleProfile where
  "sample_profile =
     \<lparr> dominantColors = [''black''], preferredCategories = [''shoes''],
       styleKeywords = [''chic''],
       priceRange = Some \<lparr> range_min = 10, range_max = 50 \<rparr>, favoredBrands = [''zara''] \<rparr>"

definition unpriced_item :: FashionItem where
  "unpriced_item = item_of Shoes [''black'', ''red''] [''chic''] None (Some ''zara'')"

definition sample_board :: PinterestBoard where
  "sample_board =
     board_of [item_of Tops [''Black'', ''white''] [''Chic''] (Some 5) (Some ''Zara''),
               item_of Shoes [''black''] [] (Some 40) None]"

definition sample_catalog :: "FashionItem list" where
  "sample_catalog =
     [item_of Tops [''black''] [] None None,
      item_of Shoes [''white'', ''red''] [''chic''] (Some 5) (Some ''zara''),
      item_of Dresses [] [] (Some 7) None]"

definition empty_board :: PinterestBoard where
  "empty_board = board_of []"

definition even_board :: PinterestBoard where
  "even_board =
     board_of (concat (map (\<lambda>c. replicate 2 (item_of c [] [] None None)) sixCategories))"

definition gap_board :: PinterestBoard where
  "gap_board =
     board_of (concat (map (\<lambda>c. replicate 4 (item_of c [] [] None None))
                        [Tops, Bottoms, Dresses, Outerwear, Shoes]))"

text \<open>The pin \<open>Beige Knit Sweater\<close> of the repository's demo board, whose brand starts
  with an ampersand.\<close>

definition stories_board :: PinterestBoard where
  "stories_board =
     board_of [item_of Tops [''beige'', ''cream''] [''cozy'', ''minimalist'', ''casual'']
                 (Some 90) (Some ''& Other Stories'')]"

section \<open>The scoring rule\<close>

lemma tag_ratio_bounds:
  fixes xs :: "'a list"
  assumes "xs \<noteq> []"
  shows "0 \<le> (of_nat (length (filter P xs)) :: rat) / of_nat (max (length xs) 1)
       \<and> (of_nat (length (filter P xs)) :: rat) / of_nat (max (length xs) 1) \<le> 1"
proof -
  from assms have m: "max (length xs) 1 = length xs"
    by (cases xs) simp_all
  have "(of_nat (length (filter P xs)) :: rat) \<le> of_nat (length xs)"
    by (simp only: of_nat_le_iff length_filter_le)
  with assms show ?thesis
    unfolding m by (simp add: divide_le_eq)
qed

lemma colorMatch_bounds:
  "0 \<le> calculateColorMatch xs ys \<and> calculateColorMatch xs ys \<le> 1"
  using tag_ratio_bounds [of xs "\<lambda>c. array_includes ys c"]
  by (simp add: calculateColorMatch_def)

lemma styleMatch_bounds:
  "0 \<le> calculateStyleMatch xs ys \<and> calculateStyleMatch xs ys \<le> 1"
  using tag_ratio_bounds [of xs "\<lambda>c. array_includes ys c"]
  by (simp add: calculateStyleMatch_def)

lemma array_includes_set: "array_includes ys = (\<lambda>t. t \<in> set ys)"
  by (simp add: fun_eq_iff array_includes_def)

lemma colorMatch_spec: "calculateColorMatch xs ys = spec_tagMatch xs ys"
  by (simp add: calculateColorMatch_def spec_tagMatch_def array_includes_set)

lemma styleMatch_spec: "calculateStyleMatch xs ys = spec_tagMatch xs ys"
  by (simp add: calculateStyleMatch_def spec_tagMatch_def array_includes_set)

text \<open>The five additions of the function body, written as one sum.\<close>

lemma score_unfold:
  "calculateRecommendationScore it profile =
     calculateColorMatch (colors it) (dominantColors profile) * 0.3
     + calculateStyleMatch (style it) (styleKeywords profile) * 0.4
     + (if array_includes (preferredCategories profile) (categoryName (category it))
        then 1 else 0.5) * 0.15
     + (if truthy_string (brand it) \<and> array_includes (favoredBrands profile) (the (brand it))
        then 1 else 0.5) * 0.1
     + (if truthy_number (price it) \<and> priceRange profile \<noteq> None
        then (if the (price it) \<ge> range_min (the (priceRange profile))
                \<and> the (price it) \<le> range_max (the (priceRange profile))
              then 1 else 0.5) * 0.05
        else 0.025)"
  by (simp add: calculateRecommendationScore_def Let_def split: option.splits)

text \<open>Wherever the item's price is not the number 0 and its brand is not the empty string,
  the code computes the score the specification describes.\<close>

lemma score_matches_spec_unless_falsy:
  assumes "price it \<noteq> Some 0" and "brand it \<noteq> Some []"
  shows "calculateRecommendationScore it profile = spec_score it profile"
  using assms
  unfolding score_unfold spec_score_def colorMatch_spec styleMatch_spec
  by (cases "price it"; cases "brand it"; cases "priceRange profile")
     (auto simp: spec_priceTerm_def truthy_number_def truthy_string_def array_includes_def
        image_iff)

text \<open>
  Claim C1: for every catalog item and every style profile the score equals
  \<open>0.30*colorMatch + 0.40*styleMatch + 0.15*categoryMatch + 0.10*brandMatch + 0.05*priceMatch\<close>,
  the price term being the flat 0.025 only when price data is missing on either side.
  Through \<open>getRecommendations\<close>, the board \<open>credit_board\<close> gives the profile the
  price range \<open>[-5, 10]\<close>, and the catalog item \<open>free_item\<close> has the price 0: the
  price is present and within the range, so the rule gives the price term 0.05 and the
  score 3/5.  The code tests \<open>item.price\<close> for truthiness, takes the branch for missing
  price data and returns the score 23/40.
\<close>

theorem score_of_zero_price_item:
  "price free_item = Some 0
   \<and> priceRange (buildStyleProfile credit_board)
       = Some \<lparr> range_min = - 5, range_max = 10 \<rparr>
   \<and> getRecommendations credit_board [free_item] None
       = Inr [\<lparr> item = free_item, score = 23 / 40, reasons = [''You often save tops''] \<rparr>]
   \<and> spec_score free_item (buildStyleProfile credit_board) = 3 / 5"
proof -
  have p: "buildStyleProfile credit_board =
             \<lparr> dominantColors = [], preferredCategories = [''tops''], styleKeywords = [],
               priceRange = Some \<lparr> range_min = - 5, range_max = 10 \<rparr>,
               favoredBrands = [] \<rparr>"
    by code_simp
  have c: "calculateRecommendationScore free_item (buildStyleProfile credit_board) = 23 / 40"
    unfolding p
    by (simp add: free_item_def item_of_def calculateRecommendationScore_def
          calculateColorMatch_def calculateStyleMatch_def array_includes_def
          truthy_number_def truthy_string_def)
  have r: "generateReasons free_item (buildStyleProfile credit_board) = [''You often save tops'']"
    unfolding p
    by (simp add: free_item_def item_of_def generateReasons_def array_includes_def
          truthy_number_def truthy_string_def)
  have g: "getRecommendations credit_board [free_item] None
             = Inr [\<lparr> item = free_item, score = 23 / 40, reasons = [''You often save tops''] \<rparr>]"
    by (simp add: getRecommendations_def analyzePinterestBoard_def generateRecommendations_def
          Let_def c r array_sort_def slice0_def)
  have q: "spec_score free_item (buildStyleProfile credit_board) = 3 / 5"
    unfolding p
    by (simp add: free_item_def item_of_def spec_score_def spec_tagMatch_def
          spec_priceTerm_def)
  have "price free_item = Some 0"
    by (simp add: free_item_def item_of_def)
  with p g q show ?thesis
    by simp
qed

text \<open>
  Claim C2: for every catalog item and every style profile, the score returned by
  \<open>_calculateRecommendationScore\<close> lies in the closed interval \<open>[0, 1]\<close>.
\<close>

theorem score_in_unit_interval:
  "0 \<le> calculateRecommendationScore it profile
   \<and> calculateRecommendationScore it profile \<le> 1"
  using colorMatch_bounds [of "colors it" "dominantColors profile"]
        styleMatch_bounds [of "style it" "styleKeywords profile"]
  unfolding score_unfold by (auto split: if_splits)

theorem score_in_unit_interval_witness:
  "0 \<le> calculateRecommendationScore unpriced_item sample_profile
   \<and> calculateRecommendationScore unpriced_item sample_profile \<le> 1
   \<and> calculateRecommendationScore unpriced_item sample_profile = 33 / 40"
proof -
  have "calculateRecommendationScore unpriced_item sample_profile = 33 / 40"
    by (simp add: unpriced_item_def sample_profile_def item_of_def
          calculateRecommendationScore_def calculateColorMatch_def calculateStyleMatch_def
          array_includes_def truthy_number_def truthy_string_def)
  with score_in_unit_interval [of unpriced_item sample_profile] show ?thesis
    by simp
qed

text \<open>
  Claim C7: for every catalog item whose price is undefined and every profile that has a
  price range, the price term contributes exactly 0.025 to the total score: the score is
  the sum of the colour, style, category and brand terms plus 0.025.
\<close>

theorem undefined_price_is_neutral:
  assumes "price it = None" and "priceRange profile = Some r"
  shows "calculateRecommendationScore it profile
           - (calculateColorMatch (colors it) (dominantColors profile) * 0.3
              + calculateStyleMatch (style it) (styleKeywords profile) * 0.4
              + (if array_includes (preferredCategories profile) (categoryName (category it))
                 then 1 else 0.5) * 0.15
              + (if truthy_string (brand it)
                    \<and> array_includes (favoredBrands profile) (the (brand it))
                 then 1 else 0.5) * 0.1)
         = 0.025"
  using assms unfolding score_unfold by (simp add: truthy_number_def)

theorem undefined_price_is_neutral_witness:
  "price unpriced_item = None
   \<and> priceRange sample_profile = Some \<lparr> range_min = 10, range_max = 50 \<rparr>
   \<and> calculateRecommendationScore unpriced_item sample_profile
       - (1 / 2 * 0.3 + 1 * 0.4 + 1 * 0.15 + 1 * 0.1) = 0.025"
proof -
  have p: "price unpriced_item = None"
    by (simp add: unpriced_item_def item_of_def)
  have r: "priceRange sample_profile = Some \<lparr> range_min = 10, range_max = 50 \<rparr>"
    by (simp add: sample_profile_def)
  have c: "calculateColorMatch (colors unpriced_item) (dominantColors sample_profile) = 1 / 2"
    by (simp add: unpriced_item_def sample_profile_def item_of_def calculateColorMatch_def
          array_includes_def)
  have s: "calculateStyleMatch (style unpriced_item) (styleKeywords sample_profile) = 1"
    by (simp add: unpriced_item_def sample_profile_def item_of_def calculateStyleMatch_def
          array_includes_def)
  have g: "array_includes (preferredCategories sample_profile)
             (categoryName (category unpriced_item))"
    by (simp add: unpriced_item_def sample_profile_def item_of_def array_includes_def)
  have b: "truthy_string (brand unpriced_item)
             \<and> array_includes (favoredBrands sample_profile) (the (brand unpriced_item))"
    by (simp add: unpriced_item_def sample_profile_def item_of_def array_includes_def
          truthy_string_def)
  from undefined_price_is_neutral [OF p r] show ?thesis
    unfolding c s using g b p r by simp
qed

text \<open>
  Claim C9: for every catalog item and every style profile the score is at least 0.15: the
  category, brand and price terms together contribute at least 0.075 + 0.05 + 0.025, the
  colour and style terms are not negative, so no item scores 0.
\<close>

theorem score_at_least_015:
  "0.15 \<le> calculateRecommendationScore it profile
             - calculateColorMatch (colors it) (dominantColors profile) * 0.3
             - calculateStyleMatch (style it) (styleKeywords profile) * 0.4
   \<and> 0.15 \<le> calculateRecommendationScore it profile
   \<and> calculateRecommendationScore it profile \<noteq> 0"
  using colorMatch_bounds [of "colors it" "dominantColors profile"]
        styleMatch_bounds [of "style it" "styleKeywords profile"]
  unfolding score_unfold by (auto split: if_splits)

theorem score_at_least_015_witness:
  "0.15 \<le> calculateRecommendationScore free_item zero_range_profile
   \<and> calculateRecommendationScore free_item zero_range_profile \<noteq> 0"
  using score_at_least_015 [of free_item zero_range_profile] by simp


section \<open>Sorting and slicing\<close>

lemma set_place: "set (place cmp x ys) = insert x (set ys)"
  by (induction ys) auto

lemma set_array_sort: "set (array_sort cmp xs) = set xs"
  by (induction xs) (simp_all add: array_sort_def set_place)

lemma place_descending:
  "sorted_wrt (\<lambda>a b. f b \<le> f a) ys \<Longrightarrow>
   sorted_wrt (\<lambda>a b. f b \<le> f a) (place (\<lambda>a b. f b - f a) x ys)"
proof (induction ys)
  case Nil
  then show ?case by simp
next
  case (Cons y ys)
  show ?case
  proof (cases "f y - f x \<le> 0")
    case True
    with Cons.prems show ?thesis by (auto intro: order_trans)
  next
    case False
    with Cons show ?thesis by (auto simp: set_place)
  qed
qed

lemma array_sort_descending:
  "sorted_wrt (\<lambda>a b. f b \<le> f a) (array_sort (\<lambda>a b. f b - f a) xs)"
  by (induction xs) (simp_all add: array_sort_def place_descending)

lemma slice0_descending: "sorted_wrt R xs \<Longrightarrow> sorted_wrt R (slice0 e xs)"
  by (simp add: slice0_def sorted_wrt_take)

section \<open>The public interface\<close>

text \<open>
  Claim C3: calling \<open>generateRecommendations\<close> while no style profile has been built
  signals the invalid-usage error, for every catalog and limit, and this is the only
  failure: the call fails exactly when the profile is absent, and it succeeds after every
  \<open>analyzePinterestBoard\<close>.
\<close>

theorem recommendations_need_profile:
  "generateRecommendations createRecommendationEngine catalogItems limit
     = Inl StyleProfileNotInitialized
   \<and> (generateRecommendations eng catalogItems limit = Inl StyleProfileNotInitialized)
       = (getStyleProfile eng = None)
   \<and> (\<exists>rs. generateRecommendations eng catalogItems limit = Inr rs)
       = (getStyleProfile eng \<noteq> None)
   \<and> (\<exists>rs. generateRecommendations (snd (analyzePinterestBoard eng board)) catalogItems limit
            = Inr rs)
   \<and> (\<exists>rs. getRecommendations board catalogItems limit = Inr rs)"
  by (auto simp: generateRecommendations_def createRecommendationEngine_def
        getStyleProfile_def getRecommendations_def analyzePinterestBoard_def Let_def
        split: option.splits)

theorem recommendations_need_profile_witness:
  "generateRecommendations createRecommendationEngine sample_catalog (Some 2)
     = Inl StyleProfileNotInitialized
   \<and> getStyleProfile createRecommendationEngine = None
   \<and> (\<exists>rs. getRecommendations sample_board sample_catalog (Some 2) = Inr rs)"
proof -
  have "getStyleProfile createRecommendationEngine = None"
    by (simp add: getStyleProfile_def createRecommendationEngine_def)
  with recommendations_need_profile
         [of sample_catalog "Some 2" createRecommendationEngine sample_board]
  show ?thesis by simp
qed

text \<open>
  Claim C4: for every board with an empty pin list, \<open>analyzePinterestBoard\<close> returns a
  style profile whose four lists are empty and whose price range is absent; the call
  has no failing branch.
\<close>

theorem empty_board_profile:
  assumes "pins board = []"
  shows "fst (analyzePinterestBoard eng board) =
           \<lparr> dominantColors = [], preferredCategories = [], styleKeywords = [],
             priceRange = None, favoredBrands = [] \<rparr>"
  using assms
  by (simp add: analyzePinterestBoard_def buildStyleProfile_def Let_def getFrequencyMap_def
        getTopN_def array_sort_def pin_brands_def pin_prices_def)

theorem empty_board_profile_witness:
  "pins empty_board = []
   \<and> fst (analyzePinterestBoard createRecommendationEngine empty_board) =
       \<lparr> dominantColors = [], preferredCategories = [], styleKeywords = [],
         priceRange = None, favoredBrands = [] \<rparr>"
proof -
  have e: "pins empty_board = []"
    by (simp add: empty_board_def board_of_def)
  from e empty_board_profile [OF e, of createRecommendationEngine] show ?thesis
    by simp
qed

text \<open>
  Claim C5: for every catalog and limit, the list returned by \<open>generateRecommendations\<close>
  is in non-increasing order of score: each element's score is at least the score of
  every later element, in particular of the element that follows it.
\<close>

theorem recommendations_descending:
  assumes "styleProfile eng = Some profile"
  shows "\<exists>rs. generateRecommendations eng catalogItems limit = Inr rs
           \<and> sorted_wrt (\<lambda>a b. score a \<ge> score b) rs
           \<and> successively (\<lambda>a b. score a \<ge> score b) rs"
proof -
  let ?scored = "map (\<lambda>it. \<lparr> item = it, score = calculateRecommendationScore it profile,
                             reasons = generateReasons it profile \<rparr>) catalogItems"
  let ?rs = "slice0 (case limit of None \<Rightarrow> 10 | Some l \<Rightarrow> l)
               (array_sort (\<lambda>a b. score b - score a) ?scored)"
  have eq: "generateRecommendations eng catalogItems limit = Inr ?rs"
    using assms by (simp add: generateRecommendations_def)
  have srt: "sorted_wrt (\<lambda>a b. score a \<ge> score b) ?rs"
    by (rule slice0_descending) (rule array_sort_descending)
  then have "successively (\<lambda>a b. score a \<ge> score b) ?rs"
    by (rule successively_if_sorted_wrt)
  with eq srt show ?thesis by blast
qed

theorem recommendations_descending_witness:
  "styleProfile (snd (analyzePinterestBoard createRecommendationEngine sample_board))
     = Some (buildStyleProfile sample_board)
   \<and> (\<exists>rs. generateRecommendations
              (snd (analyzePinterestBoard createRecommendationEngine sample_board))
              sample_catalog (Some 2) = Inr rs
           \<and> sorted_wrt (\<lambda>a b. score a \<ge> score b) rs
           \<and> successively (\<lambda>a b. score a \<ge> score b) rs)"
proof -
  have p: "styleProfile (snd (analyzePinterestBoard createRecommendationEngine sample_board))
             = Some (buildStyleProfile sample_board)"
    by (simp add: analyzePinterestBoard_def Let_def)
  from p recommendations_descending [OF p, of sample_catalog "Some 2"] show ?thesis
    by simp
qed

section \<open>The price range of a profile\<close>

lemma math_min_Min: "math_min x xs = Min (set (x # xs))"
  unfolding math_min_def by (rule Min.set_eq_fold [symmetric])

lemma math_max_Max: "math_max x xs = Max (set (x # xs))"
  unfolding math_max_def by (rule Max.set_eq_fold [symmetric])

text \<open>What the code builds: the least and the greatest of the prices that passed the
  truthiness test, and no range when none passed.\<close>

lemma pin_prices_set:
  "set (pin_prices ps) = {v. \<exists>pin \<in> set ps. price pin = Some v \<and> v \<noteq> 0}"
  by (auto simp: pin_prices_def truthy_number_def split: option.splits if_splits)

lemma priceRange_built:
  "priceRange (buildStyleProfile board) =
     (if pin_prices (pins board) = [] then None
      else Some \<lparr> range_min = Min (set (pin_prices (pins board))),
                  range_max = Max (set (pin_prices (pins board))) \<rparr>)"
proof (cases "pin_prices (pins board)")
  case Nil
  then show ?thesis by (simp add: buildStyleProfile_def Let_def)
next
  case (Cons p ps)
  then show ?thesis
    by (simp add: buildStyleProfile_def Let_def math_min_Min math_max_Max del: set_simps)
qed

text \<open>
  Claim C6: for every board the profile's price range is the minimum and maximum of the
  prices observed on the pins, and it is absent exactly when no pin has a price; whenever
  some pin carries a price the range is present.  The board \<open>free_board\<close> has one pin,
  whose price is the number 0: the pin carries a price, yet the profile has no range.
\<close>

theorem price_range_of_free_board:
  "pins free_board = [free_item]
   \<and> price free_item = Some 0
   \<and> priceRange (fst (analyzePinterestBoard createRecommendationEngine free_board)) = None"
  by (simp add: free_board_def free_item_def board_of_def item_of_def
        analyzePinterestBoard_def buildStyleProfile_def Let_def pin_prices_def
        truthy_number_def)

section \<open>Wardrobe gaps\<close>

lemma map_of_map_set: "map_of (map_set k v m) k' = (if k' = k then Some v else map_of m k')"
  by (induction m) auto

lemma categoryName_inj: "(categoryName a = categoryName b) = (a = b)"
  by (cases a; cases b) simp_all

text \<open>The loop of \<open>groupByCategory\<close>, started from any object \<open>g\<close>: the entry of a
  category is what \<open>g\<close> had, followed by the items of that category in order.\<close>

lemma group_fold:
  "map_of (fold (\<lambda>it grouped.
             (case map_of grouped (categoryName (category it)) of
                None \<Rightarrow> map_set (categoryName (category it)) [it] grouped
              | Some its \<Rightarrow> map_set (categoryName (category it)) (its @ [it]) grouped))
          items g) (categoryName c)
   = (let new = filter (\<lambda>it. category it = c) items
      in case map_of g (categoryName c) of
           None \<Rightarrow> (if new = [] then None else Some new)
         | Some its \<Rightarrow> Some (its @ new))"
proof (induction items arbitrary: g)
  case Nil
  then show ?case by (simp split: option.splits)
next
  case (Cons it items)
  show ?case
    by (simp add: Cons.IH map_of_map_set categoryName_inj Let_def split: option.splits)
qed

lemma grouped_length:
  "(case map_of (groupByCategory (pins board)) (categoryName c) of
      None \<Rightarrow> 0 | Some its \<Rightarrow> length its) = pinCount board c"
  by (simp add: groupByCategory_def group_fold pinCount_def Let_def)

lemma gaps_below_half_mean:
  assumes "boardData eng = Some board"
  shows "findWardrobeGaps eng =
           map categoryName
             (filter (\<lambda>c. of_nat (pinCount board c) < meanCount board * 0.5) sixCategories)"
proof -
  have g: "\<And>c. (case map_of (groupByCategory (pins board)) (categoryName c) of
                   None \<Rightarrow> 0 | Some its \<Rightarrow> length its) = pinCount board c"
    by (rule grouped_length)
  note gs = g [of Tops] g [of Bottoms] g [of Dresses] g [of Outerwear] g [of Shoes]
    g [of Accessories]
  show ?thesis
    using assms gs
    by (simp add: findWardrobeGaps_def allCategories_def sixCategories_def meanCount_def
          Let_def)
qed

text \<open>
  Claim C8: \<open>findWardrobeGaps\<close> counts the analyzed board's pins for each of the six
  categories, takes the mean of the six counts, and returns exactly the categories whose
  count is strictly below half that mean.  So a board with the same count in every
  category has no gap, and on a board where one category has no pin and each of the
  other five has 4, the category without pins is returned.
\<close>

theorem wardrobe_gaps:
  assumes "boardData eng = Some board"
  shows "findWardrobeGaps eng =
           map categoryName
             (filter (\<lambda>c. of_nat (pinCount board c) < meanCount board * 0.5) sixCategories)
       \<and> ((\<forall>c. pinCount board c = n) \<longrightarrow> findWardrobeGaps eng = [])
       \<and> (pinCount board z = 0 \<and> (\<forall>c. c \<noteq> z \<longrightarrow> pinCount board c = 4)
            \<longrightarrow> categoryName z \<in> set (findWardrobeGaps eng))"
proof (intro conjI impI)
  show ch: "findWardrobeGaps eng =
           map categoryName
             (filter (\<lambda>c. of_nat (pinCount board c) < meanCount board * 0.5) sixCategories)"
    using assms by (rule gaps_below_half_mean)
  {
    assume ev: "\<forall>c. pinCount board c = n"
    then have "meanCount board = of_nat n"
      by (simp add: meanCount_def sixCategories_def)
    with ev show "findWardrobeGaps eng = []"
      by (simp add: ch)
  }
  {
    assume gp: "pinCount board z = 0 \<and> (\<forall>c. c \<noteq> z \<longrightarrow> pinCount board c = 4)"
    then have "meanCount board = 10 / 3"
      by (cases z) (simp_all add: meanCount_def sixCategories_def)
    with gp have "of_nat (pinCount board z) < meanCount board * 0.5"
      by simp
    moreover have "z \<in> set sixCategories"
      by (cases z) (simp_all add: sixCategories_def)
    ultimately show "categoryName z \<in> set (findWardrobeGaps eng)"
      by (simp add: ch)
  }
qed

theorem wardrobe_gaps_witness:
  "boardData (snd (analyzePinterestBoard createRecommendationEngine even_board))
     = Some even_board
   \<and> (\<forall>c. pinCount even_board c = 2)
   \<and> findWardrobeGaps (snd (analyzePinterestBoard createRecommendationEngine even_board)) = []
   \<and> boardData (snd (analyzePinterestBoard createRecommendationEngine gap_board))
       = Some gap_board
   \<and> pinCount gap_board Accessories = 0
   \<and> map (pinCount gap_board) [Tops, Bottoms, Dresses, Outerwear, Shoes] = [4, 4, 4, 4, 4]
   \<and> ''accessories''
       \<in> set (findWardrobeGaps (snd (analyzePinterestBoard createRecommendationEngine gap_board)))"
proof -
  have b1: "boardData (snd (analyzePinterestBoard createRecommendationEngine even_board))
              = Some even_board"
    by (simp add: analyzePinterestBoard_def Let_def)
  have b2: "boardData (snd (analyzePinterestBoard createRecommendationEngine gap_board))
              = Some gap_board"
    by (simp add: analyzePinterestBoard_def Let_def)
  have e: "\<forall>c. pinCount even_board c = 2"
  proof
    fix c
    have "pinCount even_board Tops = 2" "pinCount even_board Bottoms = 2"
      "pinCount even_board Dresses = 2" "pinCount even_board Outerwear = 2"
      "pinCount even_board Shoes = 2" "pinCount even_board Accessories = 2"
      by code_simp+
    then show "pinCount even_board c = 2"
      by (cases c) simp_all
  qed
  have z: "pinCount gap_board Accessories = 0"
    by code_simp
  have g: "pinCount gap_board Tops = 4" "pinCount gap_board Bottoms = 4"
    "pinCount gap_board Dresses = 4" "pinCount gap_board Outerwear = 4"
    "pinCount gap_board Shoes = 4"
    by code_simp+
  have f: "\<forall>c. c \<noteq> Accessories \<longrightarrow> pinCount gap_board c = 4"
  proof (intro allI impI)
    fix c :: Category
    assume "c \<noteq> Accessories"
    with g show "pinCount gap_board c = 4"
      by (cases c) simp_all
  qed
  from wardrobe_gaps [OF b1, of 2] e
  have r1: "findWardrobeGaps (snd (analyzePinterestBoard createRecommendationEngine even_board))
              = []"
    by blast
  from wardrobe_gaps [OF b2, of _ Accessories] z f
  have r2: "categoryName Accessories
              \<in> set (findWardrobeGaps
                       (snd (analyzePinterestBoard createRecommendationEngine gap_board)))"
    by blast
  from b1 b2 e z g r1 r2 show ?thesis
    by simp
qed

section \<open>Normalised profile strings\<close>

lemma keys_map_set: "fst ` set (map_set k v m) = insert k (fst ` set m)"
proof (induction m)
  case Nil
  show ?case by simp
next
  case (Cons kv m)
  obtain k' v' where kv: "kv = (k', v')"
    by (cases kv)
  show ?case
  proof (cases "k = k'")
    case True
    then show ?thesis by (simp add: kv)
  next
    case False
    then show ?thesis by (simp add: kv Cons.IH insert_commute)
  qed
qed

lemma keys_freq_fold:
  "fst ` set (fold (\<lambda>it freq.
             (let normalized = normalizeText it
              in map_set normalized
                   ((case map_of freq normalized of None \<Rightarrow> 0 | Some c \<Rightarrow> c) + 1) freq))
          items m) = fst ` set m \<union> normalizeText ` set items"
  by (induction items arbitrary: m) (auto simp: keys_map_set Let_def)

lemma keys_getFrequencyMap: "fst ` set (getFrequencyMap items) = normalizeText ` set items"
  unfolding getFrequencyMap_def keys_freq_fold by simp

lemma getTopN_subset: "set (getTopN (getFrequencyMap items) n) \<subseteq> normalizeText ` set items"
proof -
  have "set (getTopN (getFrequencyMap items) n) \<subseteq> fst ` set (getFrequencyMap items)"
    unfolding getTopN_def set_map
    by (rule image_mono) (metis set_take_subset set_array_sort)
  then show ?thesis
    by (simp add: keys_getFrequencyMap)
qed

lemma collapse_spaces_chars:
  "c \<in> set (collapse_spaces s) \<Longrightarrow> c = CHR '' '' \<or> (c \<in> set s \<and> \<not> is_space c)"
proof (induction s rule: collapse_spaces.induct)
  case 1
  then show ?case by simp
next
  case (2 d ds)
  then show ?case
    by (auto split: if_splits dest: set_dropWhileD)
qed

lemma normalizeText_plain:
  assumes "c \<in> set (normalizeText t)"
  shows "plain_char c"
proof -
  from assms have "c = CHR '' '' \<or> (kept c \<and> \<not> is_space c)"
    by (auto simp: normalizeText_def strip_special_def dest!: collapse_spaces_chars)
  then show ?thesis
    by (auto simp: plain_char_def kept_def code_unit_def Let_def)
qed

lemma topN_plain:
  "s \<in> set (getTopN (getFrequencyMap items) n) \<Longrightarrow> \<forall>c \<in> set s. plain_char c"
  using getTopN_subset normalizeText_plain by blast

text \<open>What holds of every board: a string of the style profile contains no character
  other than the letters \<open>a\<close> to \<open>z\<close>, the digits, the hyphen and the space, so the
  scorer's membership tests match no tag or brand that contains any other character.\<close>

lemma profile_strings_plain:
  "(\<forall>s \<in> profile_strings (fst (analyzePinterestBoard eng board)). \<forall>c \<in> set s. plain_char c)
   \<and> (\<forall>t. (\<exists>c \<in> set t. \<not> plain_char c) \<longrightarrow>
          \<not> array_includes (dominantColors (fst (analyzePinterestBoard eng board))) t
        \<and> \<not> array_includes (styleKeywords (fst (analyzePinterestBoard eng board))) t
        \<and> \<not> array_includes (preferredCategories (fst (analyzePinterestBoard eng board))) t
        \<and> \<not> array_includes (favoredBrands (fst (analyzePinterestBoard eng board))) t)"
proof -
  have a: "\<forall>s \<in> profile_strings (fst (analyzePinterestBoard eng board)).
             \<forall>c \<in> set s. plain_char c"
    using topN_plain
    by (auto simp: profile_strings_def analyzePinterestBoard_def buildStyleProfile_def Let_def)
  then show ?thesis
    unfolding profile_strings_def array_includes_def by blast
qed

text \<open>
  Claim C10: for every board, every string in the style profile returned by
  \<open>analyzePinterestBoard\<close> is in normalized form (lowercased, trimmed, punctuation
  stripped), that is, a fixed point of \<open>normalizeText\<close>.  The board \<open>stories_board\<close>
  holds one pin of the demo board, of the brand \<open>"& Other Stories"\<close>.  \<open>normalizeText\<close>
  calls \<open>trim\<close> before it removes the ampersand, so the space behind the ampersand
  stays: the favored brand of the profile is \<open>" other stories"\<close>, which starts with a
  space, is not what \<open>trim\<close> returns for it and is mapped to \<open>"other stories"\<close> by
  \<open>normalizeText\<close>.  The scorer then matches neither the brand as the catalog writes
  it nor its normalized form.
\<close>

theorem favored_brand_of_demo_pin:
  "map brand (pins stories_board) = [Some ''& Other Stories'']
   \<and> favoredBrands (fst (analyzePinterestBoard createRecommendationEngine stories_board))
       = ['' other stories'']
   \<and> trim '' other stories'' = ''other stories''
   \<and> normalizeText '' other stories'' = ''other stories''
   \<and> \<not> array_includes
         (favoredBrands (fst (analyzePinterestBoard createRecommendationEngine stories_board)))
         ''& Other Stories''
   \<and> \<not> array_includes
         (favoredBrands (fst (analyzePinterestBoard createRecommendationEngine stories_board)))
         ''other stories''"
  by code_simp

end
